theory Spec2Isabelle
  imports
    Complex_Main
    "HOL-Library.Word"
    "HOL-Library.AList"
    "HOL-Library.Char_ord"
    "HOL-Library.List_Lexorder"
begin

unbundle bit_operations_syntax

section \<open>JavaScript values used by the AWS module\<close>

text \<open>
  A JavaScript string is modelled as a \<^typ>\<open>string\<close>: one \<^typ>\<open>char\<close> per UTF-16 code
  unit, for the strings whose code units are below 256 (the Latin-1 code points). The
  order on strings (\<open>a < b\<close> in the source's sort comparators) is JavaScript's: code units
  are compared from the left and a proper prefix is smaller; this is the order that
  \<open>Char_ord\<close> and \<open>List_Lexorder\<close> give to \<^typ>\<open>string\<close>.

  A byte array of the Apps Script runtime (\<open>Byte[]\<close>) is an array of JavaScript numbers;
  the runtime hands out signed bytes (-128..127). It is modelled as \<^typ>\<open>int list\<close>.
\<close>

type_synonym bytes = "int list"

subsection \<open>\<open>Number.prototype.toString(16)\<close> on integers\<close>

definition hexDigit :: "nat \<Rightarrow> char" where
  "hexDigit n = ''0123456789abcdef'' ! (n mod 16)"

function toDigits16 :: "nat \<Rightarrow> string" where
  "toDigits16 n = (if n < 16 then [hexDigit n] else toDigits16 (n div 16) @ [hexDigit n])"
  by pat_completeness auto
termination
  by (relation "measure id") auto

declare toDigits16.simps [simp del]

text \<open>A negative number is printed as a minus sign followed by the digits of its magnitude.\<close>

definition toString16 :: "int \<Rightarrow> string" where
  "toString16 i = (if i < 0 then CHR ''-'' # toDigits16 (nat (- i)) else toDigits16 (nat i))"

section \<open>\<open>BytesToHex\<close>\<close>

text \<open>
  The source's loop pushes one string per element onto the array \<open>hex\<close> and joins the
  array with the empty separator. \<open>parseInt\<close> of an integer-valued number is that number.
\<close>

definition byteHex :: "int \<Rightarrow> string" where
  "byteHex b =
     (let c = (if b < 0 then toString16 (256 + b) else toString16 b)
      in if length c = 1 then ''0'' @ c else c)"

fun BytesToHex_loop :: "bytes \<Rightarrow> string list \<Rightarrow> string list" where
  "BytesToHex_loop [] hex = hex"
| "BytesToHex_loop (b # bs) hex = BytesToHex_loop bs (hex @ [byteHex b])"

definition BytesToHex :: "bytes \<Rightarrow> string" where
  "BytesToHex bs = concat (BytesToHex_loop bs [])"

section \<open>\<open>GetHost\<close>\<close>

text \<open>
  The array literal holds strings and \<open>undefined\<close> (\<^const>\<open>None\<close>); \<open>filter(Boolean)\<close>
  keeps the truthy entries, that is the non-empty strings; \<open>join(".")\<close> puts a dot
  between the entries that are left.
\<close>

definition Boolean_str :: "string option \<Rightarrow> bool" where
  "Boolean_str v = (case v of None \<Rightarrow> False | Some s \<Rightarrow> s \<noteq> [])"

fun join :: "string \<Rightarrow> string list \<Rightarrow> string" where
  "join sep [] = []"
| "join sep [x] = x"
| "join sep (x # y # ys) = x @ sep @ join sep (y # ys)"

definition GetHost :: "string \<Rightarrow> string \<Rightarrow> string \<Rightarrow> string" where
  "GetHost service region bucket =
     join ''.'' (map the (filter Boolean_str
       [ (if service = ''s3'' then Some bucket else None),
         Some service,
         (if service = ''s3'' then None else Some region),
         Some ''amazonaws.com'' ]))"

section \<open>\<open>UrlEncode\<close>\<close>

text \<open>
  \<open>encodeURIComponent\<close> (ECMAScript, \<open>Encode\<close> with the unreserved set of URI
  components) copies the letters, the digits and \<open>- _ . ! ~ * ' ( )\<close>; every other
  character is written as the bytes of its UTF-8 encoding, each byte as \<open>%XX\<close> with
  upper-case hex digits. A code unit below 128 is one byte, one from 128 to 255 is two.
\<close>

definition uriUnreserved :: "char \<Rightarrow> bool" where
  "uriUnreserved c =
     (c \<in> set (''ABCDEFGHIJKLMNOPQRSTUVWXYZ'' @ ''abcdefghijklmnopqrstuvwxyz'' @
                ''0123456789'' @ ''-_.!~*'()''))"

definition utf8 :: "char \<Rightarrow> nat list" where
  "utf8 c =
     (let n = of_char c
      in if n < 128 then [n] else [192 + n div 64, 128 + n mod 64])"

definition hexDigitUpper :: "nat \<Rightarrow> char" where
  "hexDigitUpper n = ''0123456789ABCDEF'' ! (n mod 16)"

definition percentByte :: "nat \<Rightarrow> string" where
  "percentByte b = [CHR ''%'', hexDigitUpper (b div 16), hexDigitUpper b]"

definition encodeURIComponent :: "string \<Rightarrow> string" where
  "encodeURIComponent str =
     concat (map (\<lambda>c. if uriUnreserved c then [c] else concat (map percentByte (utf8 c))) str)"

text \<open>
  \<open>.replace(/[!'()*]/g, function(c) { return '%' + c.charCodeAt(0).toString(16); })\<close>:
  every occurrence of one of the five characters is replaced, the others are copied.
\<close>

definition UrlEncode :: "string \<Rightarrow> string" where
  "UrlEncode str =
     concat (map (\<lambda>c. if c \<in> set ''!'()*''
                        then CHR ''%'' # toString16 (int (of_char c))
                        else [c])
                 (encodeURIComponent str))"

section \<open>Strings, objects and optional arguments\<close>

text \<open>
  \<open>String.prototype.toLowerCase\<close> on code units below 256: the letters \<open>A\<close>..\<open>Z\<close>
  and the Latin-1 capitals (192..222 without the multiplication sign 215) move up by 32.
\<close>

definition lowerChar :: "char \<Rightarrow> char" where
  "lowerChar c =
     (let n = (of_char c :: nat)
      in if (65 \<le> n \<and> n \<le> 90) \<or> (192 \<le> n \<and> n \<le> 222 \<and> n \<noteq> 215)
         then char_of (n + 32) else c)"

definition toLowerCase :: "string \<Rightarrow> string" where
  "toLowerCase s = map lowerChar s"

text \<open>
  An argument that the caller may leave out is a \<^typ>\<open>string option\<close>, \<^const>\<open>None\<close>
  for \<open>undefined\<close>. \<open>ToString\<close> is the conversion that string concatenation and
  template literals apply; \<open>x || d\<close> takes \<open>d\<close> when \<open>x\<close> is falsy (\<open>undefined\<close> or
  the empty string).
\<close>

definition ToString :: "string option \<Rightarrow> string" where
  "ToString v = (case v of None \<Rightarrow> ''undefined'' | Some s \<Rightarrow> s)"

definition or_default :: "string option \<Rightarrow> string \<Rightarrow> string" where
  "or_default v d = (if Boolean_str v then ToString v else d)"

text \<open>
  A plain object whose property values are strings (a header map, a parameter map) is an
  association list with distinct keys, in insertion order. Assignment \<open>o[k] = v\<close> is
  \<^const>\<open>AList.update\<close> (overwrite in place, or append), \<open>delete o[k]\<close> is
  \<^const>\<open>AList.delete\<close>, and \<open>o[k]\<close> inside a string concatenation is \<open>obj_get\<close>.
  A property value that is not a string (the number \<open>1\<close>) is represented by the string
  it converts to.
\<close>

type_synonym jsobj = "(string \<times> string) list"

definition Object_keys :: "jsobj \<Rightarrow> string list" where
  "Object_keys obj = map fst obj"

definition obj_get :: "jsobj \<Rightarrow> string \<Rightarrow> string" where
  "obj_get obj k = ToString (map_of obj k)"

text \<open>
  \<open>keys.sort(function(a,b) { return a<b?-1:1; })\<close>: the keys of an object are distinct,
  so the comparator is a strict total order on them and the result is the keys in
  ascending code-unit order.
\<close>

definition sort_keys :: "string list \<Rightarrow> string list" where
  "sort_keys ks = sort ks"

text \<open>
  The payload values of the model: \<open>undefined\<close>, \<open>null\<close>, the booleans, \<open>NaN\<close>, the
  finite numbers (both zeros are the number 0), strings, arrays and plain objects.
  \<open>truthy\<close> is \<open>ToBoolean\<close>: \<open>undefined\<close>, \<open>null\<close>, \<open>false\<close>, \<open>NaN\<close>, zero and
  the empty string are falsy.
\<close>

datatype jsval =
    JUndefined
  | JNull
  | JBool bool
  | JNaN
  | JNumber rat
  | JString string
  | JArray "jsval list"
  | JObject "(string \<times> jsval) list"

fun truthy :: "jsval \<Rightarrow> bool" where
  "truthy JUndefined = False"
| "truthy JNull = False"
| "truthy (JBool b) = b"
| "truthy JNaN = False"
| "truthy (JNumber n) = (n \<noteq> 0)"
| "truthy (JString s) = (s \<noteq> [])"
| "truthy (JArray xs) = True"
| "truthy (JObject kvs) = True"

section \<open>The runtime's digests\<close>

text \<open>
  \<open>Utilities.computeDigest(Utilities.DigestAlgorithm.SHA_256, value)\<close>,
  \<open>Utilities.computeHmacSha256Signature(value, key)\<close> and
  \<open>Utilities.newBlob(value).getBytes()\<close> belong to the Apps Script runtime. They are
  modelled after the standards the runtime implements: SHA-256 (FIPS 180-4), HMAC
  (RFC 2104) and UTF-8. A 32-bit word is an \<^typ>\<open>int\<close> from 0 to \<open>2^32 - 1\<close>, with the
  wrap-around of the addition written out; inside the digest a byte is an \<^typ>\<open>int\<close>
  from 0 to 255.
\<close>

type_synonym w32 = int

definition add32 :: "w32 \<Rightarrow> w32 \<Rightarrow> w32" where
  "add32 x y = take_bit 32 (x + y)"

definition rotr :: "nat \<Rightarrow> w32 \<Rightarrow> w32" where
  "rotr n x = drop_bit n x OR push_bit (32 - n) (take_bit n x)"

definition shr :: "nat \<Rightarrow> w32 \<Rightarrow> w32" where
  "shr n x = drop_bit n x"

definition not32 :: "w32 \<Rightarrow> w32" where
  "not32 x = x XOR 4294967295"

definition Ch :: "w32 \<Rightarrow> w32 \<Rightarrow> w32 \<Rightarrow> w32" where
  "Ch x y z = (x AND y) XOR (not32 x AND z)"

definition Maj :: "w32 \<Rightarrow> w32 \<Rightarrow> w32 \<Rightarrow> w32" where
  "Maj x y z = (x AND y) XOR (x AND z) XOR (y AND z)"

definition Sigma0 :: "w32 \<Rightarrow> w32" where
  "Sigma0 x = rotr 2 x XOR rotr 13 x XOR rotr 22 x"

definition Sigma1 :: "w32 \<Rightarrow> w32" where
  "Sigma1 x = rotr 6 x XOR rotr 11 x XOR rotr 25 x"

definition sigma0 :: "w32 \<Rightarrow> w32" where
  "sigma0 x = rotr 7 x XOR rotr 18 x XOR shr 3 x"

definition sigma1 :: "w32 \<Rightarrow> w32" where
  "sigma1 x = rotr 17 x XOR rotr 19 x XOR shr 10 x"

text \<open>
  The round constants (the first 32 bits of the fractional parts of the cube roots of
  the first 64 primes) and the initial hash value (of the square roots of the first 8).
\<close>

definition sha256_K :: "w32 list" where
  "sha256_K = [
     1116352408, 1899447441, 3049323471, 3921009573,
      961987163, 1508970993, 2453635748, 2870763221,
     3624381080,  310598401,  607225278, 1426881987,
     1925078388, 2162078206, 2614888103, 3248222580,
     3835390401, 4022224774,  264347078,  604807628,
      770255983, 1249150122, 1555081692, 1996064986,
     2554220882, 2821834349, 2952996808, 3210313671,
     3336571891, 3584528711,  113926993,  338241895,
      666307205,  773529912, 1294757372, 1396182291,
     1695183700, 1986661051, 2177026350, 2456956037,
     2730485921, 2820302411, 3259730800, 3345764771,
     3516065817, 3600352804, 4094571909,  275423344,
      430227734,  506948616,  659060556,  883997877,
      958139571, 1322822218, 1537002063, 1747873779,
     1955562222, 2024104815, 2227730452, 2361852424,
     2428436474, 2756734187, 3204031479, 3329325298]"

definition sha256_H0 :: "w32 list" where
  "sha256_H0 = [1779033703, 3144134277, 1013904242, 2773480762, 1359893119, 2600822924, 528734635, 1541459225]"

text \<open>One round on the working variables \<open>a\<close>..\<open>h\<close>, with round constant and schedule word.\<close>

fun sha256_round :: "w32 list \<Rightarrow> w32 \<Rightarrow> w32 \<Rightarrow> w32 list" where
  "sha256_round [a, b, c, d, e, f, g, h] k w =
     (let t1 = add32 (add32 (add32 (add32 h (Sigma1 e)) (Ch e f g)) k) w;
          t2 = add32 (Sigma0 a) (Maj a b c)
      in [add32 t1 t2, a, b, c, add32 d t1, e, f, g])"
| "sha256_round s k w = s"

text \<open>
  The 64 rounds. \<open>ws\<close> is the window of the message schedule: the 16 words
  \<open>W\<^sub>t\<close>..\<open>W\<^sub>t\<^sub>+\<^sub>1\<^sub>5\<close>; the round uses \<open>W\<^sub>t\<close> and the window moves on by
  \<open>W\<^sub>t\<^sub>+\<^sub>1\<^sub>6 = \<sigma>\<^sub>1(W\<^sub>t\<^sub>+\<^sub>1\<^sub>4) + W\<^sub>t\<^sub>+\<^sub>9 + \<sigma>\<^sub>0(W\<^sub>t\<^sub>+\<^sub>1) + W\<^sub>t\<close>.
\<close>

fun sha256_rounds :: "w32 list \<Rightarrow> w32 list \<Rightarrow> w32 list \<Rightarrow> w32 list" where
  "sha256_rounds s [] ws = s"
| "sha256_rounds s (k # ks) ws =
     sha256_rounds (sha256_round s k (ws ! 0)) ks
       (tl ws @ [add32 (add32 (add32 (sigma1 (ws ! 14)) (ws ! 9)) (sigma0 (ws ! 1))) (ws ! 0)])"

definition sha256_compress :: "w32 list \<Rightarrow> w32 list \<Rightarrow> w32 list" where
  "sha256_compress H M = map2 add32 H (sha256_rounds H sha256_K M)"

fun sha256_blocks :: "w32 list \<Rightarrow> w32 list list \<Rightarrow> w32 list" where
  "sha256_blocks H [] = H"
| "sha256_blocks H (M # Ms) = sha256_blocks (sha256_compress H M) Ms"

text \<open>Big-endian words from bytes and back; the blocks of 16 words.\<close>

fun words_of_bytes :: "int list \<Rightarrow> w32 list" where
  "words_of_bytes (a # b # c # d # bs) =
     (((a * 256 + b) * 256 + c) * 256 + d) # words_of_bytes bs"
| "words_of_bytes bs = []"

definition bytes_of_word :: "w32 \<Rightarrow> int list" where
  "bytes_of_word w =
     [drop_bit 24 w, take_bit 8 (drop_bit 16 w), take_bit 8 (drop_bit 8 w), take_bit 8 w]"

fun blocks_of_words :: "w32 list \<Rightarrow> w32 list list" where
  "blocks_of_words
     (w0 # w1 # w2 # w3 # w4 # w5 # w6 # w7 # w8 # w9 # w10 # w11 # w12 # w13 # w14 # w15 # ws) =
     [w0, w1, w2, w3, w4, w5, w6, w7, w8, w9, w10, w11, w12, w13, w14, w15] # blocks_of_words ws"
| "blocks_of_words ws = []"

text \<open>
  Padding: the byte 128, zero bytes up to 56 modulo 64, and the length of the message in
  bits as 8 big-endian bytes.
\<close>

definition sha256_pad :: "int list \<Rightarrow> int list" where
  "sha256_pad msg =
     msg @ [128] @ replicate ((119 - length msg mod 64) mod 64) 0 @
     map (\<lambda>i. take_bit 8 (drop_bit (8 * i) (8 * int (length msg)))) [7, 6, 5, 4, 3, 2, 1, 0]"

definition sha256 :: "int list \<Rightarrow> int list" where
  "sha256 msg =
     concat (map bytes_of_word
       (sha256_blocks sha256_H0 (blocks_of_words (words_of_bytes (sha256_pad msg)))))"

text \<open>
  HMAC with SHA-256 (block size 64): a key longer than a block is hashed first, the key
  is filled up with zero bytes, and the two passes use the key xor-ed with 0x36 and 0x5C.
\<close>

definition hmac_key_block :: "int list \<Rightarrow> int list" where
  "hmac_key_block key =
     (let k = (if 64 < length key then sha256 key else key)
      in k @ replicate (64 - length k) 0)"

definition hmac_sha256 :: "int list \<Rightarrow> int list \<Rightarrow> int list" where
  "hmac_sha256 key msg =
     (let k = hmac_key_block key
      in sha256 (map (\<lambda>b. b XOR 92) k @ sha256 (map (\<lambda>b. b XOR 54) k @ msg)))"

text \<open>
  The runtime's byte arrays hold signed bytes: a byte from 128 to 255 is handed out as
  the negative number 256 below it, and taken back modulo 256.
\<close>

definition signed_byte :: "int \<Rightarrow> int" where
  "signed_byte b = (if 128 \<le> b then b - 256 else b)"

definition unsigned_byte :: "int \<Rightarrow> int" where
  "unsigned_byte b = b mod 256"

definition utf8_bytes :: "string \<Rightarrow> int list" where
  "utf8_bytes s = map int (concat (map utf8 s))"

definition getBytes :: "string \<Rightarrow> bytes" where
  "getBytes s = map signed_byte (utf8_bytes s)"

definition computeDigest :: "string \<Rightarrow> bytes" where
  "computeDigest v = map signed_byte (sha256 (utf8_bytes v))"

definition computeHmacSha256Signature :: "bytes \<Rightarrow> bytes \<Rightarrow> bytes" where
  "computeHmacSha256Signature v key =
     map signed_byte (hmac_sha256 (map unsigned_byte key) (map unsigned_byte v))"

text \<open>The overload that takes value and key as strings signs their UTF-8 bytes.\<close>

definition computeHmacSha256Signature_str :: "string \<Rightarrow> string \<Rightarrow> bytes" where
  "computeHmacSha256Signature_str v key =
     map signed_byte (hmac_sha256 (utf8_bytes key) (utf8_bytes v))"

section \<open>Hashing and the signing key\<close>

definition Sha256Hash :: "string \<Rightarrow> string" where
  "Sha256Hash v = BytesToHex (computeDigest v)"

definition Sha256Hmac :: "string \<Rightarrow> bytes \<Rightarrow> string" where
  "Sha256Hmac v key = BytesToHex (computeHmacSha256Signature (getBytes v) key)"

text \<open>
  \<open>key\<close> is the closure's \<open>secretKey\<close>, which is \<open>undefined\<close> (\<^const>\<open>None\<close>) until
  \<open>Init\<close> has run; \<open>"AWS4" + key\<close> converts it to a string.
\<close>

definition GetSignatureKey :: "string option \<Rightarrow> string \<Rightarrow> string \<Rightarrow> string \<Rightarrow> bytes" where
  "GetSignatureKey key dateStamp regionName serviceName =
     (let kDate = computeHmacSha256Signature_str dateStamp (''AWS4'' @ ToString key);
          kRegion = computeHmacSha256Signature (getBytes regionName) kDate;
          kService = computeHmacSha256Signature (getBytes serviceName) kRegion;
          kSigning = computeHmacSha256Signature (getBytes ''aws4_request'') kService
      in kSigning)"

section \<open>The module's state and its environment\<close>

text \<open>
  The closure variables \<open>accessKey\<close> and \<open>secretKey\<close> are \<open>undefined\<close> until \<open>Init\<close>
  assigns them.
\<close>

record closure =
  accessKey :: "string option"
  secretKey :: "string option"

definition closure0 :: closure where
  "closure0 = \<lparr>accessKey = None, secretKey = None\<rparr>"

definition Init :: "string \<Rightarrow> string \<Rightarrow> closure \<Rightarrow> closure" where
  "Init access_key secret_key c = c\<lparr>accessKey := Some access_key, secretKey := Some secret_key\<rparr>"

text \<open>
  Objects that the caller and the module share live in a store: a reference is an index
  into the list of objects, and a new object is appended. The header map is such an
  object; \<open>BuildRequest\<close> assigns to its properties and deletes one.
\<close>

type_synonym ref = nat
type_synonym heap = "jsobj list"

definition obj_assign :: "heap \<Rightarrow> ref \<Rightarrow> string \<Rightarrow> string \<Rightarrow> heap" where
  "obj_assign hp r k v = hp[r := AList.update k v (hp ! r)]"

definition obj_delete :: "heap \<Rightarrow> ref \<Rightarrow> string \<Rightarrow> heap" where
  "obj_delete hp r k = hp[r := AList.delete k (hp ! r)]"

text \<open>A reference that the caller passes points into the store.\<close>

definition valid_ref :: "heap \<Rightarrow> ref option \<Rightarrow> bool" where
  "valid_ref hp r = (case r of None \<Rightarrow> True | Some a \<Rightarrow> a < length hp)"

text \<open>The request object that \<open>BuildRequest\<close> returns; \<open>headers\<close> is a reference.\<close>

record request =
  req_url :: string
  req_method :: string
  req_headers :: ref
  req_muteHttpExceptions :: bool
  req_payload :: string

text \<open>
  What the module takes from its environment besides the digests: the current time as
  \<open>Utilities.formatDate(new Date(), "GMT", "yyyyMMdd'T'HHmmss'Z'")\<close> prints it,
  \<open>JSON.stringify\<close>, and the answer of \<open>UrlFetchApp.fetchAll\<close> to a request (with the
  header map it refers to). \<open>Logger.log\<close> only writes to the log and is left out.
\<close>

record runtime =
  formatDate_now :: string
  JSON_stringify :: "jsval \<Rightarrow> string"
  fetchAll :: "request \<Rightarrow> jsobj \<Rightarrow> string"

datatype error = Error string

definition AWS_DEFAULT_BUCKET :: string where
  "AWS_DEFAULT_BUCKET = ''DefaultS3Bucket''"

definition AWS_DEFAULT_REGION :: string where
  "AWS_DEFAULT_REGION = ''us-east-1''"

section \<open>\<open>BuildRequest\<close>\<close>

text \<open>
  The two \<open>forEach\<close> loops of \<open>BuildRequest\<close>, each over the sorted keys of an object
  and each extending strings. The first one appends \<open>&name=value\<close> to the query for
  every parameter.
\<close>

definition query_params :: "string \<Rightarrow> jsobj \<Rightarrow> string" where
  "query_params query params =
     foldl (\<lambda>query name. query @ ''&'' @ name @ ''='' @ UrlEncode (obj_get params name))
       query (sort_keys (Object_keys params))"

text \<open>The second one builds \<open>canonHeaders\<close> and \<open>signedHeaders\<close> from the header map.\<close>

definition header_lines :: "jsobj \<Rightarrow> string \<times> string" where
  "header_lines headers =
     foldl (\<lambda>(canonHeaders, signedHeaders) h.
              (canonHeaders @ toLowerCase h @ '':'' @ obj_get headers h @ [CHR 0x0A],
               signedHeaders @ toLowerCase h @ '';''))
       ([], []) (sort_keys (Object_keys headers))"

text \<open>
  Three steps of \<open>BuildRequest\<close> that branch. The payload: a falsy payload becomes the
  empty string, and what is not a string then is converted by \<open>JSON.stringify\<close>.
\<close>

definition payload_text :: "runtime \<Rightarrow> jsval \<Rightarrow> string" where
  "payload_text rt payload =
     (let payload = (if truthy payload then payload else JString [])
      in case payload of JString s \<Rightarrow> s | v \<Rightarrow> JSON_stringify rt v)"

text \<open>\<open>headers = headers || {}\<close>: the caller's object, or a new empty one.\<close>

definition headers_or_new :: "heap \<Rightarrow> ref option \<Rightarrow> ref \<times> heap" where
  "headers_or_new hp headers =
     (case headers of Some r \<Rightarrow> (r, hp) | None \<Rightarrow> (length hp, hp @ [[]]))"

text \<open>The URL and the query: \<open>if (method.toLowerCase() == "post") ... else ...\<close>.\<close>

definition url_and_query ::
  "string \<Rightarrow> string \<Rightarrow> string \<Rightarrow> string \<Rightarrow> jsobj option \<Rightarrow> string \<times> string" where
  "url_and_query method host uri action params =
     (if toLowerCase method = ''post'' then (''https://'' @ host @ uri, [])
      else
        let query = ''Action='' @ action;
            query = (case params of None \<Rightarrow> query | Some ps \<Rightarrow> query_params query ps)
        in (''https://'' @ host @ uri @ ''?'' @ query, query))"

text \<open>
  The local variables of \<open>BuildRequest\<close> that the signature is made of, kept beside the
  request object so that they can be spoken about.
\<close>

record locals =
  v_query :: string
  v_canonHeaders :: string
  v_signedHeaders :: string
  v_CanonicalString :: string
  v_StringToSign :: string
  v_key :: bytes
  v_authHeader :: string
  v_requestObject :: request

text \<open>
  The body of \<open>BuildRequest\<close>, statement by statement. A \<open>throw\<close> is the left
  injection; the store is returned in both cases. The names that the source assigns
  twice are bound twice.

  The two \<open>throw\<close> statements are the only failures of the model. The exceptions that
  JavaScript itself raises further down are outside it, because its arguments cannot
  provoke them: a \<open>TypeError\<close> from \<open>method.toLowerCase()\<close> needs a method that is
  not a string, a \<open>URIError\<close> from \<open>encodeURIComponent\<close> needs a lone surrogate, and
  a \<open>TypeError\<close> from \<open>JSON.stringify\<close> needs a cyclic object or a BigInt. Nothing
  proved below says that \<open>BuildRequest\<close> cannot throw on such arguments.
\<close>

definition BuildRequest_body ::
  "runtime \<Rightarrow> closure \<Rightarrow> heap \<Rightarrow> string option \<Rightarrow> string option \<Rightarrow> jsobj option \<Rightarrow>
   string option \<Rightarrow> string option \<Rightarrow> jsval \<Rightarrow> ref option \<Rightarrow> string option \<Rightarrow> string option \<Rightarrow>
   (error + locals) \<times> heap" where
  "BuildRequest_body rt c hp service action params region method payload headers uri bucket =
     (if \<not> Boolean_str service then (Inl (Error ''Missing AWS API Service''), hp)
      else if \<not> Boolean_str action then (Inl (Error ''Missing AWS API Action''), hp)
      else
        let service = ToString service;
            action = ToString action;
            region = or_default region AWS_DEFAULT_REGION;
            method = or_default method ''GET'';
            uri = or_default uri ''/'';
            bucket = or_default bucket AWS_DEFAULT_BUCKET;
            payload = payload_text rt payload;
            dateTimeStamp = formatDate_now rt;
            dateStamp = take 8 dateTimeStamp;
            hashedPayload = Sha256Hash payload;
            host = GetHost service region bucket;
            (headers, hp) = headers_or_new hp headers;
            (url, query) = url_and_query method host uri action params;
            hp = obj_assign hp headers ''Host'' host;
            hp = obj_assign hp headers ''X-Amz-Date'' dateTimeStamp;
            hp = obj_assign hp headers ''X-Amz-Target'' action;
            hp = obj_assign hp headers ''X-Amz-Content-SHA256'' hashedPayload;
            (canonHeaders, signedHeaders) = header_lines (hp ! headers);
            signedHeaders = take (length signedHeaders - 1) signedHeaders;
            CanonicalString = method @ [CHR 0x0A] @ uri @ [CHR 0x0A] @ query @ [CHR 0x0A] @
                canonHeaders @ [CHR 0x0A] @ signedHeaders @ [CHR 0x0A] @ hashedPayload;
            canonHash = Sha256Hash CanonicalString;
            algorithm = ''AWS4-HMAC-SHA256'';
            scope = dateStamp @ ''/'' @ region @ ''/'' @ service @ ''/aws4_request'';
            StringToSign = algorithm @ [CHR 0x0A] @ dateTimeStamp @ [CHR 0x0A] @ scope @
                [CHR 0x0A] @ canonHash;
            key = GetSignatureKey (secretKey c) dateStamp region service;
            signature = Sha256Hmac StringToSign key;
            authHeader = algorithm @ '' Credential='' @ ToString (accessKey c) @ ''/'' @ scope @
                '', SignedHeaders='' @ signedHeaders @ '',Signature='' @ signature;
            hp = obj_assign hp headers ''Authorization'' authHeader;
            hp = obj_delete hp headers ''Host'';
            requestObject = \<lparr> req_url = url, req_method = method, req_headers = headers,
                req_muteHttpExceptions = True, req_payload = payload \<rparr>
        in (Inr \<lparr> v_query = query, v_canonHeaders = canonHeaders,
                  v_signedHeaders = signedHeaders, v_CanonicalString = CanonicalString,
                  v_StringToSign = StringToSign, v_key = key, v_authHeader = authHeader,
                  v_requestObject = requestObject \<rparr>, hp))"

text \<open>\<open>BuildRequest\<close> returns the request object, or throws.\<close>

definition BuildRequest ::
  "runtime \<Rightarrow> closure \<Rightarrow> heap \<Rightarrow> string option \<Rightarrow> string option \<Rightarrow> jsobj option \<Rightarrow>
   string option \<Rightarrow> string option \<Rightarrow> jsval \<Rightarrow> ref option \<Rightarrow> string option \<Rightarrow> string option \<Rightarrow>
   (error + request) \<times> heap" where
  "BuildRequest rt c hp service action params region method payload headers uri bucket =
     (case BuildRequest_body rt c hp service action params region method payload headers uri bucket of
        (Inl e, hp') \<Rightarrow> (Inl e, hp')
      | (Inr l, hp') \<Rightarrow> (Inr (v_requestObject l), hp'))"

text \<open>
  \<open>SendRequest\<close> hands the request to \<open>UrlFetchApp.fetchAll\<close>; the list \<open>net\<close> records
  the requests that went out.
\<close>

definition SendRequest ::
  "runtime \<Rightarrow> heap \<Rightarrow> request list \<Rightarrow> request \<Rightarrow> string \<times> request list" where
  "SendRequest rt hp net request = (fetchAll rt request (hp ! req_headers request), net @ [request])"

definition BuildAndSendRequest ::
  "runtime \<Rightarrow> closure \<Rightarrow> heap \<Rightarrow> request list \<Rightarrow> string option \<Rightarrow> string option \<Rightarrow>
   jsobj option \<Rightarrow> string option \<Rightarrow> string option \<Rightarrow> jsval \<Rightarrow> ref option \<Rightarrow> string option \<Rightarrow>
   string option \<Rightarrow> (error + string) \<times> heap \<times> request list" where
  "BuildAndSendRequest rt c hp net service action params region method payload headers uri bucket =
     (case BuildRequest rt c hp service action params region method payload headers uri bucket of
        (Inl e, hp') \<Rightarrow> (Inl e, hp', net)
      | (Inr request, hp') \<Rightarrow>
          (case SendRequest rt hp' net request of (response, net') \<Rightarrow> (Inr response, hp', net')))"

section \<open>Example inputs\<close>

text \<open>
  A runtime and a closure for the examples: the clock reads 1 July 2021, 12:00:00 GMT;
  no example has a payload that \<open>JSON.stringify\<close> would be applied to; \<open>example_closure\<close>
  is the closure after \<open>AWS.init\<close> with the key pair of the AWS documentation.
\<close>

definition example_runtime :: runtime where
  "example_runtime =
     \<lparr> formatDate_now = ''20210701T120000Z'', JSON_stringify = (\<lambda>v. ''null''),
       fetchAll = (\<lambda>request headers. []) \<rparr>"

definition example_closure :: closure where
  "example_closure = Init ''AKIDEXAMPLE'' ''wJalrXUtnFEMI/K7MDENG+bPxRfiCYEXAMPLEKEY'' closure0"

section \<open>Properties\<close>

subsection \<open>Hex digits\<close>

definition lowerHex :: "char \<Rightarrow> bool" where
  "lowerHex c = (c \<in> set ''0123456789abcdef'')"

lemma hexDigit_lowerHex: "lowerHex (hexDigit n)"
proof -
  have "n mod 16 < length ''0123456789abcdef''" by simp
  then have "''0123456789abcdef'' ! (n mod 16) \<in> set ''0123456789abcdef''"
    by (rule nth_mem)
  then show ?thesis by (simp only: hexDigit_def lowerHex_def)
qed

lemma hexDigit_mod: "hexDigit (n mod 16) = hexDigit n"
  by (simp add: hexDigit_def)

lemma toDigits16_small: "n < 16 \<Longrightarrow> toDigits16 n = [hexDigit n]"
  by (simp add: toDigits16.simps)

lemma toDigits16_two:
  assumes "16 \<le> n" "n < 256"
  shows "toDigits16 n = [hexDigit (n div 16), hexDigit n]"
proof -
  from assms have "n div 16 < 16" by simp
  then have "toDigits16 (n div 16) = [hexDigit (n div 16)]" by (rule toDigits16_small)
  with assms show ?thesis by (simp add: toDigits16.simps [of n])
qed

lemma byteHex_unsigned:
  assumes "0 \<le> b" "b \<le> 255"
  shows "byteHex b = [hexDigit (nat b div 16), hexDigit (nat b)]"
proof (cases "nat b < 16")
  case True
  then have "nat b div 16 = 0" by simp
  with True assms show ?thesis
    by (simp add: byteHex_def toString16_def toDigits16_small hexDigit_def)
next
  case False
  with assms have "16 \<le> nat b" "nat b < 256" by simp_all
  then have "toDigits16 (nat b) = [hexDigit (nat b div 16), hexDigit (nat b)]"
    by (rule toDigits16_two)
  with assms show ?thesis by (simp add: byteHex_def toString16_def)
qed

lemma byteHex_signed:
  assumes "- 128 \<le> b" "b < 0"
  shows "byteHex b = byteHex (256 + b)"
  using assms by (simp add: byteHex_def)

lemma byteHex_byte:
  assumes "- 128 \<le> b" "b \<le> 255"
  shows "byteHex b = [hexDigit (nat (b mod 256) div 16), hexDigit (nat (b mod 256))]"
proof (cases "b < 0")
  case True
  with assms have m: "b mod 256 = 256 + b"
    by presburger
  from True assms have "byteHex b = byteHex (256 + b)" by (simp add: byteHex_signed)
  also from True assms have "\<dots> = [hexDigit (nat (256 + b) div 16), hexDigit (nat (256 + b))]"
    by (intro byteHex_unsigned) simp_all
  finally show ?thesis by (simp only: m)
next
  case False
  with assms have m: "b mod 256 = b" by simp
  from False assms show ?thesis by (simp only: m) (intro byteHex_unsigned, simp_all)
qed

lemma BytesToHex_loop_map: "BytesToHex_loop bs hex = hex @ map byteHex bs"
  by (induction bs arbitrary: hex) simp_all

lemma BytesToHex_concat_map: "BytesToHex bs = concat (map byteHex bs)"
  by (simp add: BytesToHex_def BytesToHex_loop_map)

lemma byteHex_length: "- 128 \<le> b \<Longrightarrow> b \<le> 255 \<Longrightarrow> length (byteHex b) = 2"
  by (simp add: byteHex_byte)

lemma byteHex_lowerHex:
  assumes "- 128 \<le> b" "b \<le> 255" "c \<in> set (byteHex b)"
  shows "lowerHex c"
  using assms by (auto simp add: byteHex_byte hexDigit_lowerHex)

lemma length_concat_two:
  "\<forall>x \<in> set xs. length (f x) = 2 \<Longrightarrow> length (concat (map f xs)) = 2 * length xs"
  by (induction xs) simp_all

subsection \<open>Claim C5\<close>

text \<open>
  C5. For every byte array (elements from -128 to 255, which covers the runtime's signed
  bytes and the unsigned form), \<open>BytesToHex\<close> is the concatenation, in order, of two
  lower-case hex digits per element: the high and the low nibble of the element taken
  modulo 256, so that a negative element \<open>b\<close> is printed as \<open>256 + b\<close>. The result is
  twice as long as the input and holds lower-case hex digits only. Byte 10 gives
  \<open>0a\<close>, byte 255 gives \<open>ff\<close> and the signed byte -1 gives \<open>ff\<close>.
\<close>

theorem BytesToHex_two_lower_hex_digits:
  assumes "\<forall>b \<in> set bs. - 128 \<le> b \<and> b \<le> 255"
  shows "BytesToHex bs =
           concat (map (\<lambda>b. [hexDigit (nat (b mod 256) div 16),
                               hexDigit (nat (b mod 256) mod 16)]) bs)
         \<and> length (BytesToHex bs) = 2 * length bs
         \<and> (\<forall>c \<in> set (BytesToHex bs). lowerHex c)
         \<and> BytesToHex [10] = ''0a''
         \<and> BytesToHex [255] = ''ff''
         \<and> BytesToHex [- 1] = ''ff''"
proof -
  have eq: "map byteHex bs =
      map (\<lambda>b. [hexDigit (nat (b mod 256) div 16), hexDigit (nat (b mod 256) mod 16)]) bs"
    using assms by (intro map_cong refl) (simp add: byteHex_byte hexDigit_mod)
  have len: "length (BytesToHex bs) = 2 * length bs"
    unfolding BytesToHex_concat_map
    using assms by (intro length_concat_two) (simp add: byteHex_length)
  have hex: "\<forall>c \<in> set (BytesToHex bs). lowerHex c"
    unfolding BytesToHex_concat_map
    using assms by (auto intro: byteHex_lowerHex)
  have ten: "BytesToHex [10] = ''0a''"
    by (simp add: BytesToHex_concat_map byteHex_def toString16_def toDigits16.simps hexDigit_def)
  have ff: "BytesToHex [255] = ''ff''"
    by (simp add: BytesToHex_concat_map byteHex_def toString16_def toDigits16.simps hexDigit_def)
  have neg: "BytesToHex [- 1] = ''ff''"
    by (simp add: BytesToHex_concat_map byteHex_def toString16_def toDigits16.simps hexDigit_def)
  from eq len hex ten ff neg show ?thesis
    by (simp only: BytesToHex_concat_map simp_thms)
qed

theorem BytesToHex_two_lower_hex_digits_witness:
  "BytesToHex [10, 255, - 1, - 128, 0] = ''0affff8000''
   \<and> length (BytesToHex [10, 255, - 1, - 128, 0]) = 10"
proof -
  have h: "\<forall>b \<in> set [10, 255, - 1, - 128, 0 :: int]. - 128 \<le> b \<and> b \<le> 255"
    by simp
  from BytesToHex_two_lower_hex_digits [OF h] show ?thesis
    by (simp add: hexDigit_def)
qed

subsection \<open>Claim C8\<close>

text \<open>
  C8. For a non-empty service, region and bucket, \<open>GetHost\<close> is the bucket followed by
  \<open>.s3.amazonaws.com\<close> when the service is \<open>s3\<close> (the region does not occur), and
  service, region and \<open>amazonaws.com\<close> joined by dots for every other service. So
  \<open>s3\<close> with bucket \<open>mybucket\<close> gives \<open>mybucket.s3.amazonaws.com\<close> whatever the
  region, and \<open>ec2\<close> in \<open>us-west-2\<close> gives \<open>ec2.us-west-2.amazonaws.com\<close>.
\<close>

theorem GetHost_s3_or_regional:
  assumes "service \<noteq> []" "region \<noteq> []" "bucket \<noteq> []"
  shows "GetHost service region bucket =
           (if service = ''s3'' then bucket @ ''.s3.amazonaws.com''
            else service @ ''.'' @ region @ ''.amazonaws.com'')
         \<and> GetHost ''s3'' region ''mybucket'' = ''mybucket.s3.amazonaws.com''
         \<and> GetHost ''ec2'' ''us-west-2'' bucket = ''ec2.us-west-2.amazonaws.com''"
  using assms by (simp add: GetHost_def Boolean_str_def)

theorem GetHost_s3_or_regional_witness:
  "''s3'' \<noteq> [] \<and> ''eu-west-1'' \<noteq> [] \<and> ''mybucket'' \<noteq> []
   \<and> GetHost ''s3'' ''eu-west-1'' ''mybucket'' = ''mybucket.s3.amazonaws.com''"
  using GetHost_s3_or_regional [of "''s3''" "''eu-west-1''" "''mybucket''"] by simp

subsection \<open>The digests and the signing key\<close>

lemma utf8_range:
  assumes "b \<in> set (utf8 c)"
  shows "b < 256"
proof -
  define n where "n = (of_char c :: nat)"
  have n: "n < 256" by (simp add: n_def)
  from assms have "b \<in> set (if n < 128 then [n] else [192 + n div 64, 128 + n mod 64])"
    unfolding utf8_def Let_def n_def .
  with n show ?thesis
    by (auto split: if_splits)
qed

lemma unsigned_signed_byte: "0 \<le> b \<Longrightarrow> b < 256 \<Longrightarrow> unsigned_byte (signed_byte b) = b"
  by (simp add: unsigned_byte_def signed_byte_def)

lemma unsigned_getBytes: "map unsigned_byte (getBytes s) = utf8_bytes s"
proof -
  have "\<forall>b \<in> set (utf8_bytes s). unsigned_byte (signed_byte b) = b"
    by (auto simp add: utf8_bytes_def dest!: utf8_range intro!: unsigned_signed_byte)
  then show ?thesis
    by (simp add: getBytes_def map_idI)
qed

lemma hmac_str_bytes:
  "computeHmacSha256Signature_str v key = computeHmacSha256Signature (getBytes v) (getBytes key)"
  by (simp add: computeHmacSha256Signature_str_def computeHmacSha256Signature_def unsigned_getBytes)

lemma GetSignatureKey_chain:
  "GetSignatureKey key dateStamp regionName serviceName =
     foldl (\<lambda>k msg. computeHmacSha256Signature (getBytes msg) k)
       (getBytes (''AWS4'' @ ToString key))
       [dateStamp, regionName, serviceName, ''aws4_request'']"
  by (simp add: GetSignatureKey_def hmac_str_bytes)

text \<open>
  The four stages on the test vector of \<open>TestAWS\<close>, each evaluated from the definition
  of HMAC-SHA256.
\<close>

lemma kDate_vector:
  "computeHmacSha256Signature_str ''20120215'' ''AWS4wJalrXUtnFEMI/K7MDENG+bPxRfiCYEXAMPLEKEY'' =
     [- 106, - 97, - 69, - 108, - 2, - 75, 66, - 73, 30, - 34, 111, - 121, - 2, 77, 95, - 94, - 100, 120, - 109, 66, - 80, - 12, 7, 71, 70, 112, - 16, - 62, 72, - 98, 10, 13]"
  by code_simp

lemma kRegion_vector:
  "computeHmacSha256Signature (getBytes ''us-east-1'')
     [- 106, - 97, - 69, - 108, - 2, - 75, 66, - 73, 30, - 34, 111, - 121, - 2, 77, 95, - 94, - 100, 120, - 109, 66, - 80, - 12, 7, 71, 70, 112, - 16, - 62, 72, - 98, 10, 13] =
     [105, - 38, - 96, 32, - 100, - 39, - 59, - 1, 92, - 116, - 19, 70, 74, 105, 111, - 44, 37, 46, - 104, 20, 48, - 79, 14, 61, 63, - 40, - 30, - 15, - 105, - 41, - 89, 12]"
  by code_simp

lemma kService_vector:
  "computeHmacSha256Signature (getBytes ''iam'')
     [105, - 38, - 96, 32, - 100, - 39, - 59, - 1, 92, - 116, - 19, 70, 74, 105, 111, - 44, 37, 46, - 104, 20, 48, - 79, 14, 61, 63, - 40, - 30, - 15, - 105, - 41, - 89, 12] =
     [- 9, 44, - 3, 70, - 14, 107, - 60, 100, 63, 6, - 95, 30, - 85, - 74, - 64, - 70, 24, 120, 12, 25, - 88, - 38, 12, 49, - 84, - 26, 113, 38, 94, 60, - 121, - 6]"
  by code_simp

lemma kSigning_vector:
  "computeHmacSha256Signature (getBytes ''aws4_request'')
     [- 9, 44, - 3, 70, - 14, 107, - 60, 100, 63, 6, - 95, 30, - 85, - 74, - 64, - 70, 24, 120, 12, 25, - 88, - 38, 12, 49, - 84, - 26, 113, 38, 94, 60, - 121, - 6] =
     [- 12, 120, 14, 45, - 97, 101, - 6, - 119, 95, - 100, 103, - 77, 44, - 31, - 70, - 16, - 80, - 40, - 92, 53, 5, - 96, 0, - 95, - 87, - 32, - 112, - 44, 20, - 37, 64, 77]"
  by code_simp

lemma kSigning_hex:
  "BytesToHex
     [- 12, 120, 14, 45, - 97, 101, - 6, - 119, 95, - 100, 103, - 77, 44, - 31, - 70, - 16, - 80, - 40, - 92, 53, 5, - 96, 0, - 95, - 87, - 32, - 112, - 44, 20, - 37, 64, 77] =
     ''f4780e2d9f65fa895f9c67b32ce1baf0b0d8a43505a000a1a9e090d414db404d''"
  by code_simp

lemma GetSignatureKey_bytes:
  "GetSignatureKey (Some ''wJalrXUtnFEMI/K7MDENG+bPxRfiCYEXAMPLEKEY'') ''20120215'' ''us-east-1'' ''iam'' =
     [- 12, 120, 14, 45, - 97, 101, - 6, - 119, 95, - 100, 103, - 77, 44, - 31, - 70, - 16, - 80, - 40, - 92, 53, 5, - 96, 0, - 95, - 87, - 32, - 112, - 44, 20, - 37, 64, 77]"
  unfolding GetSignatureKey_def Let_def
  by (simp add: ToString_def kDate_vector kRegion_vector kService_vector kSigning_vector)


subsection \<open>Claim C1\<close>

text \<open>
  C1. \<open>GetSignatureKey\<close> is the chain of four HMAC-SHA256 stages: the first key is the
  bytes of \<open>"AWS4"\<close> followed by the secret key, the messages are the date stamp,
  the region, the service and \<open>"aws4_request"\<close>, and the raw bytes that a stage
  returns are the key of the next. For the secret key
  \<open>wJalrXUtnFEMI/K7MDENG+bPxRfiCYEXAMPLEKEY\<close>, the date stamp \<open>20120215\<close>, the region
  \<open>us-east-1\<close> and the service \<open>iam\<close>, \<open>BytesToHex\<close> of the result is
  \<open>f4780e2d9f65fa895f9c67b32ce1baf0b0d8a43505a000a1a9e090d414db404d\<close>.
\<close>

theorem GetSignatureKey_test_vector:
  "GetSignatureKey key dateStamp regionName serviceName =
     foldl (\<lambda>k msg. computeHmacSha256Signature (getBytes msg) k)
       (getBytes (''AWS4'' @ ToString key))
       [dateStamp, regionName, serviceName, ''aws4_request'']
   \<and> BytesToHex
         (GetSignatureKey (Some ''wJalrXUtnFEMI/K7MDENG+bPxRfiCYEXAMPLEKEY'') ''20120215''
            ''us-east-1'' ''iam'') =
       ''f4780e2d9f65fa895f9c67b32ce1baf0b0d8a43505a000a1a9e090d414db404d''"
  by (simp only: GetSignatureKey_chain [symmetric] GetSignatureKey_bytes kSigning_hex simp_thms)

subsection \<open>The body of \<open>BuildRequest\<close>\<close>



lemma length_obj_assign [simp]: "length (obj_assign hp r k v) = length hp"
  by (simp add: obj_assign_def)

lemma length_obj_delete [simp]: "length (obj_delete hp r k) = length hp"
  by (simp add: obj_delete_def)

lemma body_error_service:
  "\<not> Boolean_str service \<Longrightarrow>
   BuildRequest_body rt c hp service action params region method payload headers uri bucket =
     (Inl (Error ''Missing AWS API Service''), hp)"
  by (simp add: BuildRequest_body_def)

lemma body_error_action:
  "Boolean_str service \<Longrightarrow> \<not> Boolean_str action \<Longrightarrow>
   BuildRequest_body rt c hp service action params region method payload headers uri bucket =
     (Inl (Error ''Missing AWS API Action''), hp)"
  by (simp add: BuildRequest_body_def)

subsection \<open>Claim C6\<close>

text \<open>
  C6. If the service or the action is absent (\<open>undefined\<close> or another falsy value, here
  the empty string), \<open>BuildRequest\<close> throws one of its two missing-parameter errors,
  \<open>Missing AWS API Service\<close> or \<open>Missing AWS API Action\<close>. The error is the same
  whatever the clock, \<open>JSON.stringify\<close> and the network would answer, so no time stamp,
  hash or signature goes into it; the store is returned as it was, so no header map has
  been touched; and \<open>BuildAndSendRequest\<close> throws the same error with the list of
  requests sent unchanged: nothing went to the network.
\<close>
theorem BuildRequest_missing_parameter:
  assumes "\<not> Boolean_str service \<or> \<not> Boolean_str action"
  shows "\<exists>msg. (msg = ''Missing AWS API Service'' \<or> msg = ''Missing AWS API Action'')
           \<and> (\<forall>rt. BuildRequest rt c hp service action params region method payload headers uri bucket =
                  (Inl (Error msg), hp))
           \<and> (\<forall>rt. BuildAndSendRequest rt c hp net service action params region method payload headers uri bucket =
                  (Inl (Error msg), hp, net))"
proof (cases "Boolean_str service")
  case False
  then show ?thesis
    by (intro exI [of _ "''Missing AWS API Service''"])
      (simp add: BuildAndSendRequest_def BuildRequest_def body_error_service)
next
  case True
  with assms have "\<not> Boolean_str action" by simp
  with True show ?thesis
    by (intro exI [of _ "''Missing AWS API Action''"])
      (simp add: BuildAndSendRequest_def BuildRequest_def body_error_action)
qed

theorem BuildRequest_missing_parameter_witness:
  "\<exists>msg. (msg = ''Missing AWS API Service'' \<or> msg = ''Missing AWS API Action'')
      \<and> (\<forall>rt. BuildRequest rt example_closure [] None (Some ''DescribeInstances'') None None None
                 JUndefined None None None = (Inl (Error msg), []))
      \<and> (\<forall>rt. BuildAndSendRequest rt example_closure [] [] None (Some ''DescribeInstances'') None None None
                 JUndefined None None None = (Inl (Error msg), [], []))"
proof -
  have h: "\<not> Boolean_str None \<or> \<not> Boolean_str (Some ''DescribeInstances'')"
    by (simp add: Boolean_str_def)
  show ?thesis
    by (rule BuildRequest_missing_parameter [OF h])
qed


lemma valid_ref_cases:
  assumes "valid_ref hp headers"
  obtains r where "headers = Some r" "r < length hp" | "headers = None"
  using assms by (cases headers) (simp_all add: valid_ref_def)

lemma map_of_obj_assign:
  "r < length hp \<Longrightarrow> map_of (obj_assign hp r k v ! r) = (map_of (hp ! r))(k \<mapsto> v)"
  by (simp add: obj_assign_def update_conv')

lemma map_of_obj_delete:
  "r < length hp \<Longrightarrow> map_of (obj_delete hp r k ! r) = (map_of (hp ! r))(k := None)"
  by (simp add: obj_delete_def delete_conv')




lemma body_ok:
  assumes "Boolean_str service" "Boolean_str action"
  shows "\<exists>l hp'. BuildRequest_body rt c hp service action params region method payload headers uri bucket = (Inr l, hp')"
  using assms by (simp add: BuildRequest_body_def Let_def case_prod_beta)

lemma body_request:
  assumes "Boolean_str service" "Boolean_str action"
  shows "v_requestObject (projr (fst (BuildRequest_body rt c hp service action params region method payload headers uri bucket))) =
     \<lparr> req_url = fst (url_and_query (or_default method ''GET'')
           (GetHost (ToString service) (or_default region AWS_DEFAULT_REGION) (or_default bucket AWS_DEFAULT_BUCKET))
           (or_default uri ''/'') (ToString action) params),
       req_method = or_default method ''GET'',
       req_headers = fst (headers_or_new hp headers),
       req_muteHttpExceptions = True,
       req_payload = payload_text rt payload \<rparr>"
  using assms by (simp add: BuildRequest_body_def Let_def case_prod_beta)



lemma body_heap:
  assumes "Boolean_str service" "Boolean_str action"
  shows "snd (BuildRequest_body rt c hp service action params region method payload headers uri bucket) =
     (let r = fst (headers_or_new hp headers);
          l = projr (fst (BuildRequest_body rt c hp service action params region method payload headers uri bucket))
      in obj_delete
           (obj_assign
             (obj_assign
               (obj_assign
                 (obj_assign
                   (obj_assign (snd (headers_or_new hp headers)) r ''Host''
                     (GetHost (ToString service) (or_default region AWS_DEFAULT_REGION)
                        (or_default bucket AWS_DEFAULT_BUCKET)))
                   r ''X-Amz-Date'' (formatDate_now rt))
                 r ''X-Amz-Target'' (ToString action))
               r ''X-Amz-Content-SHA256'' (Sha256Hash (payload_text rt payload)))
             r ''Authorization'' (v_authHeader l))
           r ''Host'')"
  using assms by (simp add: BuildRequest_body_def Let_def case_prod_beta)

lemma body_header_lines:
  assumes "Boolean_str service" "Boolean_str action"
  shows "(let r = fst (headers_or_new hp headers);
              l = projr (fst (BuildRequest_body rt c hp service action params region method payload headers uri bucket));
              lines = header_lines
                (obj_assign
                  (obj_assign
                    (obj_assign
                      (obj_assign (snd (headers_or_new hp headers)) r ''Host''
                        (GetHost (ToString service) (or_default region AWS_DEFAULT_REGION)
                           (or_default bucket AWS_DEFAULT_BUCKET)))
                      r ''X-Amz-Date'' (formatDate_now rt))
                    r ''X-Amz-Target'' (ToString action))
                  r ''X-Amz-Content-SHA256'' (Sha256Hash (payload_text rt payload)) ! r)
          in v_canonHeaders l = fst lines
             \<and> v_signedHeaders l = take (length (snd lines) - 1) (snd lines))"
  using assms by (simp add: BuildRequest_body_def Let_def case_prod_beta)




lemma body_cases:
  assumes "Boolean_str service" "Boolean_str action"
  obtains l hp' where
    "BuildRequest_body rt c hp service action params region method payload headers uri bucket = (Inr l, hp')"
    "l = projr (fst (BuildRequest_body rt c hp service action params region method payload headers uri bucket))"
    "hp' = snd (BuildRequest_body rt c hp service action params region method payload headers uri bucket)"
proof -
  from body_ok [OF assms] obtain l hp' where
    "BuildRequest_body rt c hp service action params region method payload headers uri bucket = (Inr l, hp')"
    by blast
  then show thesis by (intro that [of l hp']) simp_all
qed

lemma BuildRequest_of_body:
  "BuildRequest_body rt c hp service action params region method payload headers uri bucket = (Inr l, hp') \<Longrightarrow>
   BuildRequest rt c hp service action params region method payload headers uri bucket = (Inr (v_requestObject l), hp')"
  by (simp add: BuildRequest_def)

lemma headers_or_new_valid:
  "valid_ref hp headers \<Longrightarrow> fst (headers_or_new hp headers) < length (snd (headers_or_new hp headers))"
  by (cases headers) (simp_all add: valid_ref_def headers_or_new_def)

lemma headers_or_new_Some [simp]: "headers_or_new hp (Some r) = (r, hp)"
  by (simp add: headers_or_new_def)

lemma headers_or_new_None [simp]: "headers_or_new hp None = (length hp, hp @ [[]])"
  by (simp add: headers_or_new_def)

lemma payload_text_falsy: "\<not> truthy payload \<Longrightarrow> payload_text rt payload = []"
  by (simp add: payload_text_def)

lemma payload_text_string: "payload_text rt (JString s) = s"
  by (simp add: payload_text_def)

lemma payload_text_other:
  "truthy payload \<Longrightarrow> \<forall>s. payload \<noteq> JString s \<Longrightarrow> payload_text rt payload = JSON_stringify rt payload"
  by (cases payload) (simp_all add: payload_text_def)

text \<open>The header object after the call, as a map.\<close>

lemma final_headers_map:
  assumes "r < length hp0"
  shows "map_of (obj_delete
           (obj_assign (obj_assign (obj_assign (obj_assign (obj_assign hp0 r ''Host'' h)
              r ''X-Amz-Date'' d) r ''X-Amz-Target'' t) r ''X-Amz-Content-SHA256'' s)
              r ''Authorization'' a) r ''Host'' ! r) =
         (map_of (hp0 ! r))
           (''Host'' := None, ''X-Amz-Date'' \<mapsto> d, ''X-Amz-Target'' \<mapsto> t,
            ''X-Amz-Content-SHA256'' \<mapsto> s, ''Authorization'' \<mapsto> a)"
  using assms by (simp add: map_of_obj_assign map_of_obj_delete fun_eq_iff)


lemma Sha256Hash_empty:
  "Sha256Hash [] = ''e3b0c44298fc1c149afbf4c8996fb92427ae41e4649b934ca495991b7852b855''"
  by code_simp

subsection \<open>Claim C10\<close>

text \<open>
  C10. When service and action are present, \<open>BuildRequest\<close> returns a request. If the
  payload is falsy (among others the number 0, \<open>false\<close>, \<open>null\<close> and \<open>undefined\<close>),
  the payload of the request is the empty string and the header
  \<open>X-Amz-Content-SHA256\<close> is the SHA-256 digest of the empty string in hex,
  \<open>e3b0c442...7852b855\<close>; a payload of 0 or \<open>false\<close> is therefore never sent as
  \<open>"0"\<close> or \<open>"false"\<close>. A string payload is sent as it is, and only a truthy
  payload that is not a string goes through \<open>JSON.stringify\<close>. In every case the
  header is the digest of the payload that is sent.
\<close>
theorem BuildRequest_falsy_payload_is_empty:
  assumes "Boolean_str service" "Boolean_str action" "valid_ref hp headers"
  shows "\<exists>req hp'.
           BuildRequest rt c hp service action params region method payload headers uri bucket = (Inr req, hp')
           \<and> (\<not> truthy payload \<longrightarrow>
                req_payload req = [] \<and>
                map_of (hp' ! req_headers req) ''X-Amz-Content-SHA256'' =
                  Some ''e3b0c44298fc1c149afbf4c8996fb92427ae41e4649b934ca495991b7852b855'')
           \<and> (\<forall>s. payload = JString s \<longrightarrow> req_payload req = s)
           \<and> (truthy payload \<and> (\<forall>s. payload \<noteq> JString s) \<longrightarrow>
                req_payload req = JSON_stringify rt payload)
           \<and> map_of (hp' ! req_headers req) ''X-Amz-Content-SHA256'' = Some (Sha256Hash (req_payload req))
           \<and> \<not> truthy (JNumber 0) \<and> \<not> truthy (JBool False) \<and> \<not> truthy JNull \<and> \<not> truthy JUndefined"
proof -
  from assms(1,2) obtain l hp' where
    b: "BuildRequest_body rt c hp service action params region method payload headers uri bucket = (Inr l, hp')"
    and l: "l = projr (fst (BuildRequest_body rt c hp service action params region method payload headers uri bucket))"
    and h: "hp' = snd (BuildRequest_body rt c hp service action params region method payload headers uri bucket)"
    by (rule body_cases)
  let ?req = "v_requestObject l"
  have p: "req_payload ?req = payload_text rt payload"
    and r: "req_headers ?req = fst (headers_or_new hp headers)"
    by (simp_all add: l body_request [OF assms(1,2)])
  have v: "fst (headers_or_new hp headers) < length (snd (headers_or_new hp headers))"
    using assms(3) by (rule headers_or_new_valid)
  have m: "map_of (hp' ! req_headers ?req) ''X-Amz-Content-SHA256'' = Some (Sha256Hash (req_payload ?req))"
    unfolding h r p body_heap [OF assms(1,2)] Let_def
    by (simp add: final_headers_map [OF v])
  have "BuildRequest rt c hp service action params region method payload headers uri bucket = (Inr ?req, hp')"
    using b by (rule BuildRequest_of_body)
  moreover have "\<not> truthy payload \<longrightarrow>
      req_payload ?req = [] \<and>
      map_of (hp' ! req_headers ?req) ''X-Amz-Content-SHA256'' =
        Some ''e3b0c44298fc1c149afbf4c8996fb92427ae41e4649b934ca495991b7852b855''"
    using m by (simp add: p payload_text_falsy Sha256Hash_empty)
  moreover have "\<forall>s. payload = JString s \<longrightarrow> req_payload ?req = s"
    by (simp add: p payload_text_string)
  moreover have "truthy payload \<and> (\<forall>s. payload \<noteq> JString s) \<longrightarrow>
      req_payload ?req = JSON_stringify rt payload"
    by (simp add: p payload_text_other)
  ultimately show ?thesis
    using m by (intro exI [of _ ?req] exI [of _ hp']) (simp add: Sha256Hash_empty)
qed


theorem BuildRequest_falsy_payload_is_empty_witness:
  "\<exists>req hp'.
     BuildRequest example_runtime example_closure [] (Some ''ec2'') (Some ''DescribeInstances'')
       None None None (JNumber 0) None None None = (Inr req, hp')
     \<and> req_payload req = []
     \<and> map_of (hp' ! req_headers req) ''X-Amz-Content-SHA256'' =
         Some ''e3b0c44298fc1c149afbf4c8996fb92427ae41e4649b934ca495991b7852b855''"
proof -
  have t: "Boolean_str (Some ''ec2'')" "Boolean_str (Some ''DescribeInstances'')"
    by (simp_all add: Boolean_str_def)
  have v: "valid_ref [] None"
    by (simp add: valid_ref_def)
  have f: "\<not> truthy (JNumber 0)"
    by simp
  from BuildRequest_falsy_payload_is_empty [OF t v, of example_runtime example_closure
      None None None "JNumber 0" None None] f
  show ?thesis
    by blast
qed

subsection \<open>Claim C7\<close>



subsection \<open>Evaluation of the examples\<close>

lemma example_args:
  "Boolean_str (Some ''ec2'')" "Boolean_str (Some ''DescribeInstances'')"
  by (simp_all add: Boolean_str_def)

lemmas eval_simps =
  UrlEncode_def encodeURIComponent_def uriUnreserved_def utf8_def percentByte_def hexDigitUpper_def
  toString16_def toDigits16.simps hexDigit_def
  toLowerCase_def lowerChar_def char_of_def bit_Suc_0_iff
  ToString_def or_default_def Boolean_str_def obj_get_def Object_keys_def sort_keys_def
  AWS_DEFAULT_REGION_def AWS_DEFAULT_BUCKET_def GetHost_def
  example_runtime_def example_closure_def closure0_def Init_def
  obj_assign_def obj_delete_def header_lines_def payload_text_def


text \<open>None of the five characters is left in a result of \<open>UrlEncode\<close>.\<close>

lemma escape_of_five:
  assumes "x \<in> set ''!'()*''"
  shows "toString16 (int (of_char x)) \<in> {''21'', ''27'', ''28'', ''29'', ''2a''}"
proof -
  from assms have "x = CHR ''!'' \<or> x = CHR 0x27 \<or> x = CHR ''('' \<or> x = CHR '')'' \<or> x = CHR ''*''"
    by simp
  then show ?thesis
    by (elim disjE) (simp_all add: toString16_def toDigits16.simps hexDigit_def)
qed

lemma UrlEncode_escapes_all_five:
  assumes "c \<in> set (UrlEncode s)"
  shows "c \<notin> set ''!'()*''"
proof -
  let ?f = "\<lambda>x. if x \<in> set ''!'()*'' then CHR ''%'' # toString16 (int (of_char x)) else [x]"
  from assms have "c \<in> set (concat (map ?f (encodeURIComponent s)))"
    by (simp only: UrlEncode_def)
  then obtain x where c: "c \<in> set (?f x)"
    unfolding set_concat set_map by blast
  show ?thesis
  proof (cases "x \<in> set ''!'()*''")
    case True
    from escape_of_five [OF True] c True show ?thesis
      by auto
  next
    case False
    with c show ?thesis by simp
  qed
qed

subsection \<open>Claim C3\<close>

text \<open>
  C3. \<open>UrlEncode\<close> escapes the five characters \<open>! ' ( ) *\<close> that
  \<open>encodeURIComponent\<close> leaves alone, and none of them is left in the result; but it
  writes the escape with \<open>toString(16)\<close>, whose digits are lower-case. For
  \<open>a!b'c(d)e*f\<close> the result is \<open>a%21b%27c%28d%29e%2af\<close>: the star becomes
  \<open>%2a\<close>, not \<open>%2A\<close>, while \<open>encodeURIComponent\<close> itself writes upper-case
  digits (\<open>/\<close> becomes \<open>%2F\<close>).
\<close>

theorem UrlEncode_lower_case_escape:
  "UrlEncode ''a!b'c(d)e*f'' = ''a%21b%27c%28d%29e%2af''
   \<and> UrlEncode ''*'' = ''%2a''
   \<and> UrlEncode ''/*'' = ''%2F%2a''"
  by (simp add: eval_simps)




text \<open>
  The two strings of the header loop in closed form: one line per name, and the names
  joined by semicolons, in the order of the sort.
\<close>

lemma foldl_pair_concat:
  "foldl (\<lambda>(a, b) h. (a @ f h, b @ g h)) (a0, b0) xs =
     (a0 @ concat (map f xs), b0 @ concat (map g xs))"
  by (induction xs arbitrary: a0 b0) simp_all

lemma header_lines_concat:
  "header_lines obj =
     (concat (map (\<lambda>h. toLowerCase h @ '':'' @ obj_get obj h @ [CHR 0x0A]) (sort (map fst obj))),
      concat (map (\<lambda>h. toLowerCase h @ '';'') (sort (map fst obj))))"
  using foldl_pair_concat [of "\<lambda>h. toLowerCase h @ '':'' @ obj_get obj h @ [CHR 0x0A]"
      "\<lambda>h. toLowerCase h @ '';''" "[]" "[]" "sort (map fst obj)"]
  by (simp add: header_lines_def sort_keys_def Object_keys_def)

lemma butlast_concat_sep:
  "ys \<noteq> [] \<Longrightarrow> butlast (concat (map (\<lambda>y. y @ [c]) ys)) = join [c] ys"
proof (induction ys)
  case Nil
  then show ?case by simp
next
  case (Cons y ys)
  show ?case
  proof (cases ys)
    case Nil
    then show ?thesis by simp
  next
    case (Cons z zs)
    with Cons.IH have "butlast (concat (map (\<lambda>y. y @ [c]) ys)) = join [c] ys"
      by simp
    with Cons show ?thesis
      by (simp add: butlast_append)
  qed
qed

lemma sort_eq_Nil: "sort xs = [] \<longleftrightarrow> xs = []"
  by (metis length_0_conv length_sort)

lemma signedHeaders_join:
  assumes "obj \<noteq> []"
  shows "take (length (snd (header_lines obj)) - 1) (snd (header_lines obj)) =
         join '';'' (map toLowerCase (sort (map fst obj)))"
proof -
  from assms have "map toLowerCase (sort (map fst obj)) \<noteq> []"
    by (simp add: sort_eq_Nil)
  then have "butlast (concat (map (\<lambda>y. y @ '';'') (map toLowerCase (sort (map fst obj))))) =
        join '';'' (map toLowerCase (sort (map fst obj)))"
    by (rule butlast_concat_sep)
  then show ?thesis
    by (simp add: header_lines_concat butlast_conv_take comp_def)
qed


lemma update_not_Nil: "AList.update k v al \<noteq> []"
  by (cases al) simp_all

lemma body_signedHeaders_join:
  assumes "Boolean_str service" "Boolean_str action" "valid_ref hp headers"
  shows "(let r = fst (headers_or_new hp headers);
              l = projr (fst (BuildRequest_body rt c hp service action params region method payload headers uri bucket));
              obj = obj_assign
                  (obj_assign
                    (obj_assign
                      (obj_assign (snd (headers_or_new hp headers)) r ''Host''
                        (GetHost (ToString service) (or_default region AWS_DEFAULT_REGION)
                           (or_default bucket AWS_DEFAULT_BUCKET)))
                      r ''X-Amz-Date'' (formatDate_now rt))
                    r ''X-Amz-Target'' (ToString action))
                  r ''X-Amz-Content-SHA256'' (Sha256Hash (payload_text rt payload)) ! r
          in v_signedHeaders l = join '';'' (map toLowerCase (sort (map fst obj)))
             \<and> v_canonHeaders l =
                 concat (map (\<lambda>h. toLowerCase h @ '':'' @ obj_get obj h @ [CHR 0x0A])
                             (sort (map fst obj))))"
proof -
  let ?r = "fst (headers_or_new hp headers)"
  let ?hp3 = "obj_assign
                    (obj_assign
                      (obj_assign (snd (headers_or_new hp headers)) ?r ''Host''
                        (GetHost (ToString service) (or_default region AWS_DEFAULT_REGION)
                           (or_default bucket AWS_DEFAULT_BUCKET)))
                      ?r ''X-Amz-Date'' (formatDate_now rt))
                    ?r ''X-Amz-Target'' (ToString action)"
  let ?obj = "obj_assign ?hp3 ?r ''X-Amz-Content-SHA256'' (Sha256Hash (payload_text rt payload)) ! ?r"
  from assms(3) have "?r < length ?hp3"
    by (simp add: headers_or_new_valid)
  then have "?obj \<noteq> []"
    by (simp add: obj_assign_def update_not_Nil)
  then have "take (length (snd (header_lines ?obj)) - 1) (snd (header_lines ?obj)) =
      join '';'' (map toLowerCase (sort (map fst ?obj)))"
    by (rule signedHeaders_join)
  moreover have "fst (header_lines ?obj) =
      concat (map (\<lambda>h. toLowerCase h @ '':'' @ obj_get ?obj h @ [CHR 0x0A]) (sort (map fst ?obj)))"
    by (simp add: header_lines_concat)
  ultimately show ?thesis
    using body_header_lines [OF assms(1,2), of hp headers rt c params region "method" payload uri bucket]
    by (simp only: Let_def)
qed

subsection \<open>Claim C2\<close>

text \<open>
  C2. \<open>BuildRequest\<close> sorts the header names as they are written, by code unit, and
  lower-cases them afterwards. For the caller's header map \<open>{"Z":1,"a":2,"M":3}\<close> the
  signed-header list is
  \<open>host;m;x-amz-content-sha256;x-amz-date;x-amz-target;z;a\<close> (lower-cased names joined by
  semicolons, no semicolon at the end) and the canonical header block has the same
  order: the caller's three headers come as \<open>m\<close>, \<open>z\<close>, \<open>a\<close>, not in the
  case-insensitive order \<open>a\<close>, \<open>m\<close>, \<open>z\<close>.
\<close>

theorem BuildRequest_signed_headers_order:
  "\<exists>l hp'.
     BuildRequest_body example_runtime example_closure [[(''Z'', ''1''), (''a'', ''2''), (''M'', ''3'')]]
       (Some ''ec2'') (Some ''DescribeInstances'') None None None JUndefined (Some 0) None None =
       (Inr l, hp')
     \<and> v_signedHeaders l = ''host;m;x-amz-content-sha256;x-amz-date;x-amz-target;z;a''
     \<and> v_canonHeaders l =
         ''host:ec2.us-east-1.amazonaws.com'' @ [CHR 0x0A] @
         ''m:3'' @ [CHR 0x0A] @
         ''x-amz-content-sha256:e3b0c44298fc1c149afbf4c8996fb92427ae41e4649b934ca495991b7852b855'' @ [CHR 0x0A] @
         ''x-amz-date:20210701T120000Z'' @ [CHR 0x0A] @
         ''x-amz-target:DescribeInstances'' @ [CHR 0x0A] @
         ''z:1'' @ [CHR 0x0A] @
         ''a:2'' @ [CHR 0x0A]"
proof -
  from example_args obtain l hp' where
    b: "BuildRequest_body example_runtime example_closure [[(''Z'', ''1''), (''a'', ''2''), (''M'', ''3'')]]
       (Some ''ec2'') (Some ''DescribeInstances'') None None None JUndefined (Some 0) None None =
       (Inr l, hp')"
    and l: "l = projr (fst (BuildRequest_body example_runtime example_closure
       [[(''Z'', ''1''), (''a'', ''2''), (''M'', ''3'')]]
       (Some ''ec2'') (Some ''DescribeInstances'') None None None JUndefined (Some 0) None None))"
    by (rule body_cases)
  from body_header_lines [OF example_args, of "[[(''Z'', ''1''), (''a'', ''2''), (''M'', ''3'')]]"
      "Some 0" example_runtime example_closure None None None JUndefined None None]
  have "v_signedHeaders l = ''host;m;x-amz-content-sha256;x-amz-date;x-amz-target;z;a''
     \<and> v_canonHeaders l =
         ''host:ec2.us-east-1.amazonaws.com'' @ [CHR 0x0A] @
         ''m:3'' @ [CHR 0x0A] @
         ''x-amz-content-sha256:e3b0c44298fc1c149afbf4c8996fb92427ae41e4649b934ca495991b7852b855'' @ [CHR 0x0A] @
         ''x-amz-date:20210701T120000Z'' @ [CHR 0x0A] @
         ''x-amz-target:DescribeInstances'' @ [CHR 0x0A] @
         ''z:1'' @ [CHR 0x0A] @
         ''a:2'' @ [CHR 0x0A]"
    unfolding l [symmetric] Let_def
    by (simp add: eval_simps Sha256Hash_empty)
  with b show ?thesis by blast
qed

subsection \<open>Claim C4\<close>





subsection \<open>Claim C9\<close>





end
